theory Spec2Isabelle
  imports Complex_Main
begin

section \<open>The Cornelius isosurface kernel\<close>

text \<open>
  A shallow embedding of the Cornelius surface finder
  (\<^verbatim>\<open>external_packages/Cornelius\<close>): Square, Polygon, Cube, Polyhedron, Hypercube and
  the Cornelius facade. A C++ \<^verbatim>\<open>double\<close> is a \<open>real\<close> (exact arithmetic: rounding,
  underflow, infinities and NaN are outside the model), an \<^verbatim>\<open>int\<close> index is an
  \<open>int\<close>, a counter that only counts up from zero is a \<open>nat\<close>, a fixed-size
  \<^verbatim>\<open>std::array\<close> is a list. Members are passed and returned explicitly; every
  \<^verbatim>\<open>exit(1)\<close>, every thrown exception and every read outside an array is a value of
  \<open>failure\<close>.
\<close>

subsection \<open>Failures and array reads\<close>

datatype failure =
  Exit_failure          \<comment> \<open>\<^verbatim>\<open>exit(1)\<close>: the process terminates\<close>
  | Out_of_range        \<comment> \<open>\<^verbatim>\<open>throw std::out_of_range\<close>: the caller can catch it\<close>
  | Undefined_behaviour \<comment> \<open>an access outside an array, or a conversion out of range\<close>
  | No_progress         \<comment> \<open>a loop whose state no longer changes: it never returns\<close>

type_synonym vec = "real list"

definition DIM :: nat where
  "DIM = 4"

definition STEPS :: nat where
  "STEPS = 2"

definition EPSILON :: real where
  "EPSILON = 1 / 10 ^ 10"

text \<open>\<^verbatim>\<open>a[i]\<close> on a \<^verbatim>\<open>std::array\<close> with a signed index: unchecked in C++.\<close>

definition array_at :: "'a list \<Rightarrow> int \<Rightarrow> failure + 'a" where
  "array_at xs i = (if 0 \<le> i \<and> i < int (length xs) then Inr (xs ! nat i)
              else Inl Undefined_behaviour)"

text \<open>The sum over the \<open>DIM\<close> coordinates of the absolute differences.\<close>

definition abs_difference :: "vec \<Rightarrow> vec \<Rightarrow> real" where
  "abs_difference p q = (\<Sum>i\<leftarrow>[0..<DIM]. \<bar>p ! i - q ! i\<bar>)"

subsection \<open>Line\<close>

record line =
  start_point :: vec
  end_point :: vec
  outside_point :: vec
  line_const_i :: "nat list"

text \<open>
  Modelled from the spec: \<^verbatim>\<open>Line.h\<close> is not among the sources. A Line is
  "two endpoints, one outside reference point, and the pair of constant-coordinate
  indices"; \<^verbatim>\<open>init_line(points, out, const_i)\<close> stores them.
\<close>

definition init_line :: "vec list \<Rightarrow> vec \<Rightarrow> nat list \<Rightarrow> line" where
  "init_line pts out_pt ci =
     \<lparr>start_point = pts ! 0, end_point = pts ! 1, outside_point = out_pt, line_const_i = ci\<rparr>"

text \<open>
  Modelled from the spec: \<^verbatim>\<open>Line::flip_start_end\<close> ("orientation (start vs. end) is
  adjusted when chained into a polygon").
\<close>

definition flip_start_end :: "line \<Rightarrow> line" where
  "flip_start_end l = l\<lparr>start_point := end_point l, end_point := start_point l\<rparr>"

text \<open>
  What the sources use and do not define: the constants \<^verbatim>\<open>ALMOST_ZERO\<close> and
  \<^verbatim>\<open>ALMOST_ONE\<close> of \<^verbatim>\<open>Square.h\<close>, the accessors \<^verbatim>\<open>Line::get_normal\<close> and
  \<^verbatim>\<open>Line::get_centroid\<close>, and \<^verbatim>\<open>flip_normal_if_needed(normal, v_out)\<close> of
  \<^verbatim>\<open>GeneralGeometryElement.h\<close>. They are parameters of the model.
\<close>

record externals =
  ALMOST_ZERO :: real
  ALMOST_ONE :: real
  line_get_normal :: "line \<Rightarrow> vec"
  line_get_centroid :: "line \<Rightarrow> vec"
  flip_normal_if_needed :: "vec \<Rightarrow> vec \<Rightarrow> vec"

subsection \<open>Square\<close>

record square =
  points :: "real list list"
  sq_const_i :: "nat list"
  sq_const_value :: "real list"
  sq_dx :: vec
  sq_x1 :: nat
  sq_x2 :: nat
  cuts :: "real list list"
  out :: "real list list"
  number_cuts :: nat
  sq_number_lines :: nat
  sq_ambiguous :: bool
  sq_lines :: "line list"

text \<open>
  Modelled from the spec: \<^verbatim>\<open>Square::init_square\<close> (\<^verbatim>\<open>Square.h\<close> is not among the
  sources). It stores the corner values, the two constant indices with their values and
  the spacing, takes the two remaining indices, in increasing order, as \<open>x1\<close> and
  \<open>x2\<close>, and resets the counters and the flag ("re-initialized per query (all
  counters and buffers reset)").
\<close>

definition init_square :: "real list list \<Rightarrow> nat list \<Rightarrow> real list \<Rightarrow> vec \<Rightarrow> square" where
  "init_square sq c_i c_v new_dx =
     (let free = filter (\<lambda>i. i \<noteq> c_i ! 0 \<and> i \<noteq> c_i ! 1) [0..<DIM] in
      \<lparr>points = sq, sq_const_i = c_i, sq_const_value = c_v, sq_dx = new_dx,
       sq_x1 = free ! 0, sq_x2 = free ! 1,
       cuts = replicate 4 [0, 0], out = replicate 2 [0, 0],
       number_cuts = 0, sq_number_lines = 0, sq_ambiguous = False,
       sq_lines = replicate 2 (init_line [replicate DIM 0, replicate DIM 0] (replicate DIM 0) c_i)\<rparr>)"

text \<open>The lambda \<^verbatim>\<open>add_cut\<close> of \<^verbatim>\<open>Square::ends_of_edge\<close>.\<close>

definition add_cut :: "square \<Rightarrow> real \<Rightarrow> real \<Rightarrow> square" where
  "add_cut s x y = s\<lparr>cuts := (cuts s)[number_cuts s := [x, y]], number_cuts := number_cuts s + 1\<rparr>"

definition ends_of_edge :: "externals \<Rightarrow> square \<Rightarrow> real \<Rightarrow> failure + square" where
  "ends_of_edge k s v =
     (let p00 = points s ! 0 ! 0; p01 = points s ! 0 ! 1;
          p10 = points s ! 1 ! 0; p11 = points s ! 1 ! 1;
          top_left = p00 - v; top_right = p01 - v;
          bottom_left = p10 - v; bottom_right = p11 - v;
          d1 = sq_dx s ! sq_x1 s; d2 = sq_dx s ! sq_x2 s;
          e1 = (if top_left * bottom_left < 0 then add_cut s (top_left / (p00 - p10) * d1) 0
                else if p00 = v \<and> p10 < v then add_cut s (ALMOST_ZERO k * d1) 0
                else if p10 = v \<and> p00 < v then add_cut s (ALMOST_ONE k * d1) 0
                else s);
          e2 = (if top_left * top_right < 0 then add_cut e1 0 (top_left / (p00 - p01) * d2)
                else if p00 = v \<and> p01 < v then add_cut e1 0 (ALMOST_ZERO k * d2)
                else if p01 = v \<and> p00 < v then add_cut e1 0 (ALMOST_ONE k * d2)
                else e1);
          e3 = (if bottom_left * bottom_right < 0
                  then add_cut e2 d1 (bottom_left / (p10 - p11) * d2)
                else if p10 = v \<and> p11 < v then add_cut e2 d1 (ALMOST_ZERO k * d2)
                else if p11 = v \<and> p10 < v then add_cut e2 d1 (ALMOST_ONE k * d2)
                else e2);
          e4 = (if top_right * bottom_right < 0
                  then add_cut e3 (top_right / (p01 - p11) * d1) d2
                else if p01 = v \<and> p11 < v then add_cut e3 (ALMOST_ZERO k * d1) d2
                else if p11 = v \<and> p01 < v then add_cut e3 (ALMOST_ONE k * d1) d2
                else e3)
      in if number_cuts e4 \<noteq> 0 \<and> number_cuts e4 \<noteq> 2 \<and> number_cuts e4 \<noteq> 4
         then Inl Exit_failure else Inr e4)"

definition find_outside :: "square \<Rightarrow> real \<Rightarrow> square" where
  "find_outside s v =
     (let p00 = points s ! 0 ! 0; p01 = points s ! 0 ! 1;
          p10 = points s ! 1 ! 0; p11 = points s ! 1 ! 1;
          d1 = sq_dx s ! sq_x1 s; d2 = sq_dx s ! sq_x2 s
      in if number_cuts s = 4 then
           (let value_middle = 0.25 * (p00 + p01 + p10 + p11);
                c = (if (p00 < v \<and> value_middle < v) \<or> (p00 > v \<and> value_middle > v)
                     then (cuts s)[1 := cuts s ! 2, 2 := cuts s ! 1] else cuts s);
                outs = (if value_middle < v then [[0.5 * d1, 0.5 * d2], [0.5 * d1, 0.5 * d2]]
                        else if p00 < v then [[0, 0], [d1, d2]]
                        else [[d1, 0], [0, d2]])
            in s\<lparr>sq_ambiguous := True, cuts := c, out := outs\<rparr>)
         else
           (let below = [p00 < v, p01 < v, p10 < v, p11 < v];
                number_out = length (filter id below);
                o0 = (if p00 < v then 0 * d1 else 0) + (if p01 < v then 0 * d1 else 0)
                     + (if p10 < v then 1 * d1 else 0) + (if p11 < v then 1 * d1 else 0);
                o1 = (if p00 < v then 0 * d2 else 0) + (if p01 < v then 1 * d2 else 0)
                     + (if p10 < v then 0 * d2 else 0) + (if p11 < v then 1 * d2 else 0)
            in s\<lparr>out := (if number_out > 0
                            then [[o0 / real number_out, o1 / real number_out], [0, 0]]
                            else [[o0, o1], [0, 0]])\<rparr>))"

text \<open>
  The corner mask of \<^verbatim>\<open>Square::construct_lines\<close>: bit \<open>0\<close> for corner \<open>(0,0)\<close>, bit
  \<open>1\<close> for \<open>(0,1)\<close>, bit \<open>2\<close> for \<open>(1,0)\<close>, bit \<open>3\<close> for \<open>(1,1)\<close>, set when the
  corner value is \<open>\<ge>\<close> the threshold.
\<close>

definition corner_mask :: "square \<Rightarrow> real \<Rightarrow> nat" where
  "corner_mask s v = (if points s ! 0 ! 0 \<ge> v then 1 else 0) + (if points s ! 0 ! 1 \<ge> v then 2 else 0)
            + (if points s ! 1 ! 0 \<ge> v then 4 else 0) + (if points s ! 1 ! 1 \<ge> v then 8 else 0)"

text \<open>
  One line of the square from cuts \<open>i\<close> and \<open>i + 1\<close> and the outside point \<open>j\<close>: the
  two free coordinates come from the cut, the two constant ones from the face.
\<close>

definition make_line :: "square \<Rightarrow> nat \<Rightarrow> nat \<Rightarrow> line" where
  "make_line s i j =
     (let embed = (\<lambda>p. (replicate DIM 0)
                      [sq_x1 s := p ! 0, sq_x2 s := p ! 1,
                       sq_const_i s ! 0 := sq_const_value s ! 0,
                       sq_const_i s ! 1 := sq_const_value s ! 1])
      in init_line [embed (cuts s ! i), embed (cuts s ! (i + 1))] (embed (out s ! j)) (sq_const_i s))"

text \<open>
  \<^verbatim>\<open>Square::construct_lines\<close>. \<^verbatim>\<open>ends_of_edge\<close> returns only with 0, 2 or 4 cuts, so the
  general loop of the source (one line for every pair of cuts) is written out for these
  counts.
\<close>

definition construct_lines :: "externals \<Rightarrow> square \<Rightarrow> real \<Rightarrow> failure + square" where
  "construct_lines k s v =
     (if corner_mask s v = 0 \<or> corner_mask s v = 15 then Inr (s\<lparr>sq_number_lines := 0\<rparr>)
      else case ends_of_edge k s v of
        Inl e \<Rightarrow> Inl e
      | Inr s1 \<Rightarrow>
          (let s2 = (if number_cuts s1 > 0 then find_outside s1 v else s1) in
           if number_cuts s2 = 2
           then Inr (s2\<lparr>sq_lines := (sq_lines s2)[0 := make_line s2 0 0], sq_number_lines := 1\<rparr>)
           else if number_cuts s2 = 4
           then Inr (s2\<lparr>sq_lines := (sq_lines s2)[0 := make_line s2 0 0, 1 := make_line s2 2 1],
                         sq_number_lines := 2\<rparr>)
           else Inr (s2\<lparr>sq_number_lines := 0\<rparr>)))"

subsection \<open>Polygon\<close>

record polygon =
  pg_lines :: "line list"
  pg_number_lines :: nat
  pg_x1 :: nat
  pg_x2 :: nat
  pg_x3 :: nat
  pg_const_i :: nat

text \<open>
  \<^verbatim>\<open>Polygon()\<close>: no lines; the indices are set by \<^verbatim>\<open>init_polygon\<close> before any use.
\<close>

definition new_polygon :: polygon where
  "new_polygon = \<lparr>pg_lines = [], pg_number_lines = 0, pg_x1 = 0, pg_x2 = 0, pg_x3 = 0,
                    pg_const_i = 0\<rparr>"

definition init_polygon :: "polygon \<Rightarrow> nat \<Rightarrow> polygon" where
  "init_polygon p new_const_i =
     (let p1 = p\<lparr>pg_const_i := new_const_i\<rparr>;
          p2 = (if new_const_i = 0 then p1\<lparr>pg_x1 := 1, pg_x2 := 2, pg_x3 := 3\<rparr>
                else if new_const_i = 1 then p1\<lparr>pg_x1 := 0, pg_x2 := 2, pg_x3 := 3\<rparr>
                else if new_const_i = 2 then p1\<lparr>pg_x1 := 0, pg_x2 := 1, pg_x3 := 3\<rparr>
                else if new_const_i = 3 then p1\<lparr>pg_x1 := 0, pg_x2 := 1, pg_x3 := 2\<rparr>
                else p1)
      in p2\<lparr>pg_number_lines := 0, pg_lines := []\<rparr>)"

text \<open>
  \<^verbatim>\<open>v[n] = x\<close> on a \<^verbatim>\<open>std::vector\<close> after \<^verbatim>\<open>if (n >= v.size()) v.emplace_back()\<close>, with
  \<open>d\<close> the default element; in every use \<open>n \<le> length v\<close>.
\<close>

definition vector_store :: "'a list \<Rightarrow> nat \<Rightarrow> 'a \<Rightarrow> 'a \<Rightarrow> 'a list" where
  "vector_store v n d x = (if n \<ge> length v then (v @ [d])[n := x] else v[n := x])"

text \<open>
  \<^verbatim>\<open>Polygon::add_line\<close>. The line is taken by pointer and may be flipped in place, so
  the model returns it as well: the answer, the polygon and the line after the call.
\<close>

definition add_line :: "polygon \<Rightarrow> line \<Rightarrow> bool \<Rightarrow> bool \<times> polygon \<times> line" where
  "add_line p new_line perform_no_check =
     (if pg_number_lines p = 0 \<or> perform_no_check
      then (True,
            p\<lparr>pg_lines := vector_store (pg_lines p) (pg_number_lines p) new_line new_line,
              pg_number_lines := pg_number_lines p + 1\<rparr>,
            new_line)
      else
        (let last_end_point = end_point (pg_lines p ! (pg_number_lines p - 1));
             difference1 = abs_difference (start_point new_line) last_end_point;
             difference2 = abs_difference (end_point new_line) last_end_point
         in if difference1 < EPSILON \<or> difference2 < EPSILON
            then (let l = (if difference2 < EPSILON then flip_start_end new_line else new_line)
                  in (True,
                      p\<lparr>pg_lines := vector_store (pg_lines p) (pg_number_lines p) l l,
                        pg_number_lines := pg_number_lines p + 1\<rparr>,
                      l))
            else (False, p, new_line)))"

text \<open>
  \<^verbatim>\<open>Polygon::calculate_centroid\<close> and \<^verbatim>\<open>Polygon::calculate_normal\<close>. The C++ caches
  both results behind a flag; the lines of a polygon no longer change once it is
  complete, so the model computes them from the lines.
\<close>

definition polygon_mean_values :: "polygon \<Rightarrow> vec" where
  "polygon_mean_values p =
     map (\<lambda>k. (\<Sum>l\<leftarrow>take (pg_number_lines p) (pg_lines p). start_point l ! k + end_point l ! k)
               / (2 * real (pg_number_lines p))) [0..<DIM]"

definition polygon_centroid :: "polygon \<Rightarrow> vec" where
  "polygon_centroid p =
     (let mean_values = polygon_mean_values p;
          ls = take (pg_number_lines p) (pg_lines p)
      in if pg_number_lines p = 3 then mean_values
         else
           (let area = (\<lambda>l.
                  (let a = map (\<lambda>j. start_point l ! j - mean_values ! j) [0..<DIM];
                       b = map (\<lambda>j. end_point l ! j - mean_values ! j) [0..<DIM]
                   in 0.5 * sqrt ((a ! pg_x2 p * b ! pg_x3 p - a ! pg_x3 p * b ! pg_x2 p)\<^sup>2
                                + (a ! pg_x1 p * b ! pg_x3 p - a ! pg_x3 p * b ! pg_x1 p)\<^sup>2
                                + (a ! pg_x2 p * b ! pg_x1 p - a ! pg_x1 p * b ! pg_x2 p)\<^sup>2)));
                triangle_centroid = (\<lambda>l j. (start_point l ! j + end_point l ! j + mean_values ! j) / 3);
                sum_down = (\<Sum>l\<leftarrow>ls. area l)
            in map (\<lambda>i. (\<Sum>l\<leftarrow>ls. area l * triangle_centroid l i) / sum_down) [0..<DIM]))"

definition polygon_normal :: "externals \<Rightarrow> polygon \<Rightarrow> vec" where
  "polygon_normal k p =
     (let centroid = polygon_centroid p;
          ls = take (pg_number_lines p) (pg_lines p);
          triangle_normal = (\<lambda>l.
            (let a = map (\<lambda>j. start_point l ! j - centroid ! j) [0..<DIM];
                 b = map (\<lambda>j. end_point l ! j - centroid ! j) [0..<DIM];
                 n = (replicate DIM 0)
                       [pg_x1 p := 0.5 * (a ! pg_x2 p * b ! pg_x3 p - a ! pg_x3 p * b ! pg_x2 p),
                        pg_x2 p := - 0.5 * (a ! pg_x1 p * b ! pg_x3 p - a ! pg_x3 p * b ! pg_x1 p),
                        pg_x3 p := 0.5 * (a ! pg_x1 p * b ! pg_x2 p - a ! pg_x2 p * b ! pg_x1 p),
                        pg_const_i p := 0];
                 v_out = map (\<lambda>j. outside_point l ! j - centroid ! j) [0..<DIM]
             in flip_normal_if_needed k n v_out))
      in map (\<lambda>j. (\<Sum>l\<leftarrow>ls. triangle_normal l ! j)) [0..<DIM])"

subsection \<open>Polyhedron\<close>

record polyhedron =
  ph_polygons :: "polygon list"
  ph_number_polygons :: nat
  number_tetrahedrons :: nat

definition init_polyhedron :: "polyhedron \<Rightarrow> polyhedron" where
  "init_polyhedron ph = ph\<lparr>ph_number_polygons := 0, number_tetrahedrons := 0,
                            ph_polygons := [new_polygon]\<rparr>"

definition new_polyhedron :: polyhedron where
  "new_polyhedron = \<lparr>ph_polygons = [new_polygon], ph_number_polygons = 0,
                       number_tetrahedrons = 0\<rparr>"

text \<open>
  The loop of \<^verbatim>\<open>Polyhedron::lines_are_connected\<close> over the coordinates: each running
  difference grows while it is still \<open>\<le> EPSILON\<close>, and the answer is \<open>False\<close> as soon
  as both exceed it. Only the start point of the second line is read.
\<close>

fun lines_connected_loop :: "vec \<Rightarrow> vec \<Rightarrow> vec \<Rightarrow> real \<Rightarrow> real \<Rightarrow> nat list \<Rightarrow> bool" where
  "lines_connected_loop start_point1 end_point1 start_point2 difference1 difference2 [] = True"
| "lines_connected_loop start_point1 end_point1 start_point2 difference1 difference2 (i # rest) =
     (let d1 = (if difference1 \<le> EPSILON
                then difference1 + \<bar>start_point1 ! i - start_point2 ! i\<bar> else difference1);
          d2 = (if difference2 \<le> EPSILON
                then difference2 + \<bar>end_point1 ! i - start_point2 ! i\<bar> else difference2)
      in if d1 > EPSILON \<and> d2 > EPSILON then False
         else lines_connected_loop start_point1 end_point1 start_point2 d1 d2 rest)"

definition lines_are_connected :: "line \<Rightarrow> line \<Rightarrow> bool" where
  "lines_are_connected line1 line2 =
     lines_connected_loop (start_point line1) (end_point line1) (start_point line2) 0 0 [0..<DIM]"

definition add_polygon :: "polyhedron \<Rightarrow> polygon \<Rightarrow> bool \<Rightarrow> bool \<times> polyhedron" where
  "add_polygon ph new_pg perform_no_check =
     (let stored = ph\<lparr>ph_polygons :=
                         vector_store (ph_polygons ph) (ph_number_polygons ph) new_polygon new_pg,
                       ph_number_polygons := ph_number_polygons ph + 1,
                       number_tetrahedrons := number_tetrahedrons ph + pg_number_lines new_pg\<rparr>
      in if ph_number_polygons ph = 0 \<or> perform_no_check then (True, stored)
         else if list_ex (\<lambda>q.
                   list_ex (\<lambda>l1.
                     list_ex (\<lambda>l2. lines_are_connected l1 l2)
                       (take (pg_number_lines q) (pg_lines q)))
                     (take (pg_number_lines new_pg) (pg_lines new_pg)))
                 (take (ph_number_polygons ph) (ph_polygons ph))
         then (True, stored)
         else (False, ph))"

definition tetrahedron_volume :: "vec \<Rightarrow> vec \<Rightarrow> vec \<Rightarrow> vec" where
  "tetrahedron_volume v1 v2 v3 =
     (let bc01 = v2 ! 0 * v3 ! 1 - v2 ! 1 * v3 ! 0;
          bc02 = v2 ! 0 * v3 ! 2 - v2 ! 2 * v3 ! 0;
          bc03 = v2 ! 0 * v3 ! 3 - v2 ! 3 * v3 ! 0;
          bc12 = v2 ! 1 * v3 ! 2 - v2 ! 2 * v3 ! 1;
          bc13 = v2 ! 1 * v3 ! 3 - v2 ! 3 * v3 ! 1;
          bc23 = v2 ! 2 * v3 ! 3 - v2 ! 3 * v3 ! 2
      in [(v1 ! 1 * bc23 - v1 ! 2 * bc13 + v1 ! 3 * bc12) * (1 / 6),
          - (v1 ! 0 * bc23 - v1 ! 2 * bc03 + v1 ! 3 * bc02) * (1 / 6),
          (v1 ! 0 * bc13 - v1 ! 1 * bc03 + v1 ! 3 * bc01) * (1 / 6),
          - (v1 ! 0 * bc12 - v1 ! 1 * bc02 + v1 ! 2 * bc01) * (1 / 6)])"

text \<open>
  The tetrahedra of a polyhedron: one for every line of every polygon, as the pair of
  the line and the centroid of its polygon.
\<close>

definition tetrahedra :: "polyhedron \<Rightarrow> (line \<times> vec) list" where
  "tetrahedra ph =
     concat (map (\<lambda>q. map (\<lambda>l. (l, polygon_centroid q)) (take (pg_number_lines q) (pg_lines q)))
                 (take (ph_number_polygons ph) (ph_polygons ph)))"

definition polyhedron_centroid :: "polyhedron \<Rightarrow> vec" where
  "polyhedron_centroid ph =
     (let ts = tetrahedra ph;
          mean_values = map (\<lambda>k. (\<Sum>(l, cent)\<leftarrow>ts. start_point l ! k + end_point l ! k)
                                  / (2 * real (number_tetrahedrons ph))) [0..<DIM];
          cm = (\<lambda>(l, cent) k.
                  (start_point l ! k + end_point l ! k + cent ! k + mean_values ! k) * 0.25);
          vol = (\<lambda>(l, cent).
                  (let a = map (\<lambda>k. start_point l ! k - mean_values ! k) [0..<DIM];
                       b = map (\<lambda>k. end_point l ! k - mean_values ! k) [0..<DIM];
                       c = map (\<lambda>k. cent ! k - mean_values ! k) [0..<DIM];
                       n = tetrahedron_volume a b c
                   in sqrt (\<Sum>k\<leftarrow>[0..<DIM]. n ! k * n ! k)));
          sum_down = (\<Sum>t\<leftarrow>ts. vol t)
      in map (\<lambda>k. (\<Sum>t\<leftarrow>ts. vol t * cm t k) / sum_down) [0..<DIM])"

definition polyhedron_normal :: "externals \<Rightarrow> polyhedron \<Rightarrow> vec" where
  "polyhedron_normal k ph =
     (let centroid = polyhedron_centroid ph;
          tetrahedron_normal = (\<lambda>(l, cent).
            (let a = map (\<lambda>j. start_point l ! j - centroid ! j) [0..<DIM];
                 b = map (\<lambda>j. end_point l ! j - centroid ! j) [0..<DIM];
                 c = map (\<lambda>j. cent ! j - centroid ! j) [0..<DIM];
                 Vout = map (\<lambda>j. outside_point l ! j - centroid ! j) [0..<DIM]
             in flip_normal_if_needed k (tetrahedron_volume a b c) Vout))
      in map (\<lambda>j. (\<Sum>t\<leftarrow>take (number_tetrahedrons ph) (tetrahedra ph). tetrahedron_normal t ! j))
             [0..<DIM])"

subsection \<open>Cube\<close>

record cube =
  cube_values :: "real list list list"
  cb_polygons :: "polygon list"
  squares :: "square list"
  line_refs :: "line list"
  cb_number_lines :: nat
  cb_number_polygons :: nat
  cb_ambiguous :: bool
  cb_const_i :: nat
  cb_const_value :: real
  cb_x1 :: nat
  cb_x2 :: nat
  cb_x3 :: nat
  cb_dx :: vec
  cb_not_used :: "bool list"

definition NSQUARES :: nat where
  "NSQUARES = 6"

text \<open>\<^verbatim>\<open>Cube()\<close>: counters at zero, one default polygon, six default squares.\<close>

definition new_cube :: cube where
  "new_cube =
     \<lparr>cube_values = replicate 2 (replicate 2 (replicate 2 0)),
      cb_polygons = [new_polygon],
      squares = replicate NSQUARES (init_square (replicate 2 (replicate 2 0)) [0, 1] [0, 0]
                                      (replicate DIM 0)),
      line_refs = [], cb_number_lines = 0, cb_number_polygons = 0, cb_ambiguous = False,
      cb_const_i = 0, cb_const_value = 0, cb_x1 = 0, cb_x2 = 0, cb_x3 = 0,
      cb_dx = replicate DIM 0, cb_not_used = replicate (NSQUARES * 2) False\<rparr>"

definition init_cube :: "cube \<Rightarrow> real list list list \<Rightarrow> nat \<Rightarrow> real \<Rightarrow> vec \<Rightarrow> cube" where
  "init_cube c cu new_const_i new_const_value new_dx =
     (let x_lookup = [[1, 2, 3], [0, 2, 3], [0, 1, 3], [0, 1, 2]] in
      c\<lparr>cube_values := cu, cb_const_i := new_const_i, cb_const_value := new_const_value,
        cb_dx := new_dx,
        cb_x1 := x_lookup ! new_const_i ! 0, cb_x2 := x_lookup ! new_const_i ! 1,
        cb_x3 := x_lookup ! new_const_i ! 2,
        cb_number_lines := 0, cb_number_polygons := 0, cb_ambiguous := False,
        cb_polygons := [new_polygon]\<rparr>)"

text \<open>
  \<^verbatim>\<open>Cube::split_to_squares\<close>: for every index \<open>i\<close> other than the constant one and both
  values of \<open>j\<close>, the face \<open>x\<^sub>i = j\<close> of the cube.
\<close>

definition cube_face :: "cube \<Rightarrow> nat \<Rightarrow> nat \<Rightarrow> real list list" where
  "cube_face c i j =
     (if i = cb_x1 c then map (\<lambda>ci1. cube_values c ! j ! ci1) [0..<STEPS]
      else if i = cb_x2 c then map (\<lambda>ci1. cube_values c ! ci1 ! j) [0..<STEPS]
      else map (\<lambda>ci1. map (\<lambda>ci2. cube_values c ! ci1 ! ci2 ! j) [0..<STEPS]) [0..<STEPS])"

definition split_to_squares :: "cube \<Rightarrow> cube" where
  "split_to_squares c =
     c\<lparr>squares :=
         concat (map (\<lambda>i. map (\<lambda>j. init_square (cube_face c i j) [cb_const_i c, i]
                                       [cb_const_value c, real j * cb_dx c ! i] (cb_dx c))
                               [0..<STEPS])
                     (filter (\<lambda>i. i \<noteq> cb_const_i c) [0..<DIM]))\<rparr>"

text \<open>\<^verbatim>\<open>construct_lines\<close> on each square in turn; the first \<^verbatim>\<open>exit(1)\<close> ends the run.\<close>

fun construct_all_lines :: "externals \<Rightarrow> square list \<Rightarrow> real \<Rightarrow> failure + square list" where
  "construct_all_lines k [] v = Inr []"
| "construct_all_lines k (s # ss) v =
     (case construct_lines k s v of
        Inl e \<Rightarrow> Inl e
      | Inr s' \<Rightarrow> (case construct_all_lines k ss v of
                     Inl e \<Rightarrow> Inl e
                   | Inr ss' \<Rightarrow> Inr (s' # ss')))"

definition cube_check_ambiguity :: "cube \<Rightarrow> nat \<Rightarrow> cube" where
  "cube_check_ambiguity c number_lines =
     (if list_ex sq_ambiguous (squares c) then c\<lparr>cb_ambiguous := True\<rparr>
      else if number_lines = 6 then c\<lparr>cb_ambiguous := True\<rparr>
      else c)"

definition count_unused :: "bool list \<Rightarrow> nat" where
  "count_unused flags = length (filter id flags)"

lemma count_unused_update:
  "i < length flags \<Longrightarrow> flags ! i \<Longrightarrow> count_unused (flags[i := False]) < count_unused flags"
  unfolding count_unused_def
proof (induction flags arbitrary: i)
  case Nil
  then show ?case by simp
next
  case (Cons a flags)
  then show ?case by (cases i) auto
qed

text \<open>
  The inner \<^verbatim>\<open>for\<close> loop of the ambiguous branch of \<^verbatim>\<open>Cube::construct_polygons\<close>:
  every line still unused is offered to the polygon; after a line is taken the loop
  variable is set to \<open>0\<close> and then incremented, so the scan resumes at index \<open>1\<close>.
\<close>

function scan_lines ::
  "nat \<Rightarrow> nat \<Rightarrow> line list \<Rightarrow> bool list \<Rightarrow> nat \<Rightarrow> polygon
   \<Rightarrow> failure + (line list \<times> bool list \<times> nat \<times> polygon)" where
  "scan_lines i n refs flags used p =
     (if i < n then
        (if i < length flags \<and> i < length refs then
           (if flags ! i then
              (case add_line p (refs ! i) False of
                 (True, p', l) \<Rightarrow> scan_lines 1 n (refs[i := l]) (flags[i := False]) (used + 1) p'
               | (False, p', l) \<Rightarrow> scan_lines (i + 1) n refs flags used p)
            else scan_lines (i + 1) n refs flags used p)
         else Inl Undefined_behaviour)
      else Inr (refs, flags, used, p))"
  by pat_completeness auto
termination
  by (relation "measures [\<lambda>(i, n, refs, flags, used, p). count_unused flags,
                          \<lambda>(i, n, refs, flags, used, p). n - i]")
     (auto simp: count_unused_update)

text \<open>
  The \<^verbatim>\<open>do ... while (used < number_lines)\<close> loop of the ambiguous branch. A pass that
  takes no line while lines remain would be repeated unchanged for ever; the model
  returns \<open>No_progress\<close> there.
\<close>

function grow_polygons :: "cube \<Rightarrow> nat \<Rightarrow> failure + cube" where
  "grow_polygons c used =
     (if int (cb_number_lines c) - int used < 3 then Inl Exit_failure
      else
        (let polys = (if cb_number_polygons c \<ge> length (cb_polygons c)
                      then cb_polygons c @ [new_polygon] else cb_polygons c);
             p0 = init_polygon (polys ! cb_number_polygons c) (cb_const_i c)
         in case scan_lines 0 (cb_number_lines c) (line_refs c) (cb_not_used c) used p0 of
              Inl e \<Rightarrow> Inl e
            | Inr (refs, flags, used', p) \<Rightarrow>
                if used' < cb_number_lines c
                then (if count_unused flags < count_unused (cb_not_used c)
                      then grow_polygons
                             (c\<lparr>cb_polygons := polys[cb_number_polygons c := p], line_refs := refs,
                                cb_not_used := flags,
                                cb_number_polygons := cb_number_polygons c + 1\<rparr>) used'
                      else Inl No_progress)
                else Inr (c\<lparr>cb_polygons := polys[cb_number_polygons c := p], line_refs := refs,
                            cb_not_used := flags,
                            cb_number_polygons := cb_number_polygons c + 1\<rparr>)))"
  by pat_completeness auto
termination
  by (relation "measure (\<lambda>(c, used). count_unused (cb_not_used c))") auto

text \<open>The non-ambiguous branch: every line goes into one polygon, unchecked.\<close>

definition single_polygon :: "cube \<Rightarrow> cube" where
  "single_polygon c =
     (let polys = (if cb_number_polygons c \<ge> length (cb_polygons c)
                   then cb_polygons c @ [new_polygon] else cb_polygons c);
          p0 = init_polygon (polys ! cb_number_polygons c) (cb_const_i c);
          p = fold (\<lambda>l q. fst (snd (add_line q l True))) (take (cb_number_lines c) (line_refs c)) p0
      in c\<lparr>cb_polygons := polys[cb_number_polygons c := p],
           cb_number_polygons := cb_number_polygons c + 1\<rparr>)"

definition construct_polygons :: "externals \<Rightarrow> cube \<Rightarrow> real \<Rightarrow> failure + cube" where
  "construct_polygons k c v =
     (let c1 = split_to_squares c in
      case construct_all_lines k (squares c1) v of
        Inl e \<Rightarrow> Inl e
      | Inr sqs \<Rightarrow>
          (let refs = concat (map (\<lambda>s. take (sq_number_lines s) (sq_lines s)) sqs);
               c2 = c1\<lparr>squares := sqs, line_refs := refs, cb_number_lines := length refs\<rparr>
           in if cb_number_lines c2 = 0 then Inr c2
              else
                (let c3 = cube_check_ambiguity c2 (cb_number_lines c2) in
                 if cb_ambiguous c3
                 then grow_polygons (c3\<lparr>cb_not_used := replicate (NSQUARES * 2) True\<rparr>) 0
                 else Inr (single_polygon c3))))"

subsection \<open>Hypercube\<close>

record hypercube =
  hypercube_values :: "real list list list list"
  polyhedra :: "polyhedron list"
  cubes :: "cube list"
  polygon_refs :: "polygon list"
  number_polyhedra :: nat
  hc_ambiguous :: bool
  hc_dx :: vec
  hc_not_used :: "bool list"

definition NCUBES :: nat where
  "NCUBES = 8"

definition new_hypercube :: hypercube where
  "new_hypercube =
     \<lparr>hypercube_values = replicate 2 (replicate 2 (replicate 2 (replicate 2 0))),
      polyhedra = [], cubes = replicate NCUBES new_cube, polygon_refs = [],
      number_polyhedra = 0, hc_ambiguous = False, hc_dx = replicate DIM 0,
      hc_not_used = replicate (NCUBES * 10) False\<rparr>"

definition init_hypercube :: "hypercube \<Rightarrow> real list list list list \<Rightarrow> vec \<Rightarrow> hypercube" where
  "init_hypercube h hc new_dx =
     h\<lparr>hypercube_values := hc, hc_dx := new_dx, number_polyhedra := 0, hc_ambiguous := False,
       polyhedra := []\<rparr>"

text \<open>
  \<^verbatim>\<open>Hypercube::split_to_cubes\<close>: the eight cubes \<open>x\<^sub>i = j\<close>, and the number of corner
  values below the threshold, counted while the two cubes of \<open>i = 0\<close> are filled.
\<close>

definition hypercube_face :: "hypercube \<Rightarrow> nat \<Rightarrow> nat \<Rightarrow> real list list list" where
  "hypercube_face h i j =
     map (\<lambda>ci1. map (\<lambda>ci2. map (\<lambda>ci3.
           if i = 0 then hypercube_values h ! j ! ci1 ! ci2 ! ci3
           else if i = 1 then hypercube_values h ! ci1 ! j ! ci2 ! ci3
           else if i = 2 then hypercube_values h ! ci1 ! ci2 ! j ! ci3
           else hypercube_values h ! ci1 ! ci2 ! ci3 ! j)
         [0..<STEPS]) [0..<STEPS]) [0..<STEPS]"

definition split_to_cubes :: "hypercube \<Rightarrow> real \<Rightarrow> nat \<times> hypercube" where
  "split_to_cubes h v =
     (length (filter (\<lambda>x. x < v) (concat (concat (concat
                (map (\<lambda>j. hypercube_face h 0 j) [0..<STEPS]))))),
      h\<lparr>cubes :=
          map (\<lambda>(n, i, j). init_cube (cubes h ! n) (hypercube_face h i j) i
                               (real j * hc_dx h ! i) (hc_dx h))
              (zip [0..<NCUBES]
                   (concat (map (\<lambda>i. map (\<lambda>j. (i, j)) [0..<STEPS]) [0..<DIM])))\<rparr>)"

text \<open>\<^verbatim>\<open>construct_polygons\<close> on each cube in turn; the first \<^verbatim>\<open>exit(1)\<close> ends the run.\<close>

fun construct_all_polygons :: "externals \<Rightarrow> cube list \<Rightarrow> real \<Rightarrow> failure + cube list" where
  "construct_all_polygons k [] v = Inr []"
| "construct_all_polygons k (c # cs) v =
     (case construct_polygons k c v of
        Inl e \<Rightarrow> Inl e
      | Inr c' \<Rightarrow> (case construct_all_polygons k cs v of
                     Inl e \<Rightarrow> Inl e
                   | Inr cs' \<Rightarrow> Inr (c' # cs')))"

text \<open>\<^verbatim>\<open>Hypercube::check_ambiguity(int number_points_below_value)\<close>.\<close>

definition hypercube_check_ambiguity :: "hypercube \<Rightarrow> int \<Rightarrow> hypercube" where
  "hypercube_check_ambiguity h number_points_below_value =
     (if list_ex cb_ambiguous (cubes h) then h\<lparr>hc_ambiguous := True\<rparr>
      else
        (let number_lines = (\<Sum>c\<leftarrow>cubes h. cb_number_lines c);
             n = (if number_points_below_value > 8 then 16 - number_points_below_value
                  else number_points_below_value)
         in if number_lines = 24 \<and> n = 2 then h\<lparr>hc_ambiguous := True\<rparr>
            else h\<lparr>hc_ambiguous := False\<rparr>))"

text \<open>
  The conversion of a \<^verbatim>\<open>double\<close> argument to an \<^verbatim>\<open>int\<close> parameter: truncation towards
  zero, undefined when the result does not fit 32 bits.
\<close>

definition double_to_int :: "real \<Rightarrow> failure + int" where
  "double_to_int x =
     (let t = (if x \<ge> 0 then \<lfloor>x\<rfloor> else \<lceil>x\<rceil>)
      in if - (2 ^ 31) \<le> t \<and> t < 2 ^ 31 then Inr t else Inl Undefined_behaviour)"

text \<open>
  The inner \<^verbatim>\<open>for\<close> loop of the ambiguous branch of \<^verbatim>\<open>Hypercube::construct_polyhedra\<close>;
  as in the cube, the scan resumes at index \<open>1\<close> after a polygon is taken.
\<close>

function scan_polygons ::
  "nat \<Rightarrow> nat \<Rightarrow> polygon list \<Rightarrow> bool list \<Rightarrow> nat \<Rightarrow> polyhedron
   \<Rightarrow> failure + (bool list \<times> nat \<times> polyhedron)" where
  "scan_polygons i n refs flags used ph =
     (if i < n then
        (if i < length flags \<and> i < length refs then
           (if flags ! i then
              (case add_polygon ph (refs ! i) False of
                 (True, ph') \<Rightarrow> scan_polygons 1 n refs (flags[i := False]) (used + 1) ph'
               | (False, ph') \<Rightarrow> scan_polygons (i + 1) n refs flags used ph)
            else scan_polygons (i + 1) n refs flags used ph)
         else Inl Undefined_behaviour)
      else Inr (flags, used, ph))"
  by pat_completeness auto
termination
  by (relation "measures [\<lambda>(i, n, refs, flags, used, ph). count_unused flags,
                          \<lambda>(i, n, refs, flags, used, ph). n - i]")
     (auto simp: count_unused_update)

text \<open>
  The \<^verbatim>\<open>do ... while (used < number_polygons)\<close> loop of the ambiguous branch. Unlike the
  loop of the cube it has no test of the number of polygons left.
\<close>

function grow_polyhedra :: "hypercube \<Rightarrow> nat \<Rightarrow> nat \<Rightarrow> failure + hypercube" where
  "grow_polyhedra h number_polygons used =
     (let phs = (if number_polyhedra h \<ge> length (polyhedra h)
                 then polyhedra h @ [new_polyhedron] else polyhedra h);
          ph0 = init_polyhedron (phs ! number_polyhedra h)
      in case scan_polygons 0 number_polygons (polygon_refs h) (hc_not_used h) used ph0 of
           Inl e \<Rightarrow> Inl e
         | Inr (flags, used', ph) \<Rightarrow>
             if used' < number_polygons
             then (if count_unused flags < count_unused (hc_not_used h)
                   then grow_polyhedra
                          (h\<lparr>polyhedra := phs[number_polyhedra h := ph], hc_not_used := flags,
                             number_polyhedra := number_polyhedra h + 1\<rparr>) number_polygons used'
                   else Inl No_progress)
             else Inr (h\<lparr>polyhedra := phs[number_polyhedra h := ph], hc_not_used := flags,
                         number_polyhedra := number_polyhedra h + 1\<rparr>))"
  by pat_completeness auto
termination
  by (relation "measure (\<lambda>(h, number_polygons, used). count_unused (hc_not_used h))") auto

definition single_polyhedron :: "hypercube \<Rightarrow> nat \<Rightarrow> hypercube" where
  "single_polyhedron h number_polygons =
     (let phs = (if number_polyhedra h \<ge> length (polyhedra h)
                 then polyhedra h @ [new_polyhedron] else polyhedra h);
          ph0 = init_polyhedron (phs ! number_polyhedra h);
          ph = fold (\<lambda>q r. snd (add_polygon r q True)) (take number_polygons (polygon_refs h)) ph0
      in h\<lparr>polyhedra := phs[number_polyhedra h := ph],
           number_polyhedra := number_polyhedra h + 1\<rparr>)"

text \<open>
  \<^verbatim>\<open>Hypercube::construct_polyhedra(double value)\<close>. The count returned by
  \<^verbatim>\<open>split_to_cubes\<close> is stored in a local that is not read again; the call
  \<^verbatim>\<open>check_ambiguity(value)\<close> passes the threshold itself, converted to \<^verbatim>\<open>int\<close>.
\<close>

definition construct_polyhedra :: "externals \<Rightarrow> hypercube \<Rightarrow> real \<Rightarrow> failure + hypercube" where
  "construct_polyhedra k h v =
     (let (number_points_below_value, h1) = split_to_cubes h v in
      case construct_all_polygons k (cubes h1) v of
        Inl e \<Rightarrow> Inl e
      | Inr cs \<Rightarrow>
          (let refs = concat (map (\<lambda>c. take (cb_number_polygons c) (cb_polygons c)) cs);
               number_polygons = length refs;
               h2 = h1\<lparr>cubes := cs, polygon_refs := refs\<rparr>
           in case double_to_int v of
                Inl e \<Rightarrow> Inl e
              | Inr n \<Rightarrow>
                  (let h3 = hypercube_check_ambiguity h2 n in
                   if hc_ambiguous h3
                   then grow_polyhedra (h3\<lparr>hc_not_used := replicate (NCUBES * 10) True\<rparr>)
                          number_polygons 0
                   else Inr (single_polyhedron h3 number_polygons))))"

text \<open>The four loops are unfolded by hand, one pass at a time.\<close>

declare scan_lines.simps [simp del] grow_polygons.simps [simp del]
  scan_polygons.simps [simp del] grow_polyhedra.simps [simp del]

subsection \<open>The Cornelius facade\<close>

text \<open>
  The members of \<^verbatim>\<open>Cornelius\<close>; \<open>threshold\<close> is the member \<^verbatim>\<open>value\<close> and \<open>co_dx\<close> the
  member \<^verbatim>\<open>dx\<close>.
\<close>

record cornelius =
  number_elements :: int
  cube_dimension :: int
  initialized :: bool
  threshold :: real
  co_dx :: vec
  normals :: "vec list"
  centroids :: "vec list"
  cube_2d :: square
  cube_3d :: cube
  cube_4d :: hypercube

text \<open>
  The cells a query receives: nested \<^verbatim>\<open>std::array\<close>s of side \<open>STEPS\<close>. Their corner
  values are the elements of the flattened list.
\<close>

definition cell_2d :: "real list list \<Rightarrow> bool" where
  "cell_2d cu \<longleftrightarrow> length cu = STEPS \<and> (\<forall>r\<in>set cu. length r = STEPS)"

definition cell_3d :: "real list list list \<Rightarrow> bool" where
  "cell_3d cu \<longleftrightarrow> length cu = STEPS \<and> (\<forall>p\<in>set cu. cell_2d p)"

definition cell_4d :: "real list list list list \<Rightarrow> bool" where
  "cell_4d cu \<longleftrightarrow> length cu = STEPS \<and> (\<forall>p\<in>set cu. cell_3d p)"

text \<open>
  The result buffers are fixed arrays of rows of \<open>DIM\<close> components; a query overwrites
  the first \<open>number_elements\<close> rows and leaves the others as they were.
\<close>

definition store_rows :: "vec list \<Rightarrow> vec list \<Rightarrow> vec list" where
  "store_rows buffer rows = rows @ drop (length rows) buffer"

definition find_surface_2d :: "externals \<Rightarrow> cornelius \<Rightarrow> real list list \<Rightarrow> failure + cornelius" where
  "find_surface_2d k co cu =
     (if \<not> initialized co \<or> cube_dimension co \<noteq> 2 then Inl Exit_failure
      else case construct_lines k (init_square cu [0, 1] [0, 0] (co_dx co)) (threshold co) of
        Inl e \<Rightarrow> Inl e
      | Inr s \<Rightarrow>
          (let ls = take (sq_number_lines s) (sq_lines s) in
           Inr (co\<lparr>cube_2d := s, number_elements := int (sq_number_lines s),
                   normals := store_rows (normals co) (map (line_get_normal k) ls),
                   centroids := store_rows (centroids co) (map (line_get_centroid k) ls)\<rparr>)))"

text \<open>
  \<^verbatim>\<open>Cornelius::find_surface_3d\<close>, that is \<^verbatim>\<open>surface_3d\<close> without printing.
\<close>

definition find_surface_3d ::
  "externals \<Rightarrow> cornelius \<Rightarrow> real list list list \<Rightarrow> failure + cornelius" where
  "find_surface_3d k co cu =
     (if \<not> initialized co \<or> cube_dimension co \<noteq> 3 then Inl Exit_failure
      else
        (let value_greater = length (filter (\<lambda>element. element \<ge> threshold co)
                                       (concat (concat cu)))
         in if value_greater = 0 \<or> value_greater = 8 then Inr (co\<lparr>number_elements := 0\<rparr>)
            else case construct_polygons k (init_cube (cube_3d co) cu 0 0 (co_dx co))
                        (threshold co) of
              Inl e \<Rightarrow> Inl e
            | Inr c \<Rightarrow>
                (let polys = take (cb_number_polygons c) (cb_polygons c) in
                 Inr (co\<lparr>cube_3d := c, number_elements := int (cb_number_polygons c),
                         normals := store_rows (normals co) (map (polygon_normal k) polys),
                         centroids := store_rows (centroids co) (map polygon_centroid polys)\<rparr>))))"

definition find_surface_4d ::
  "externals \<Rightarrow> cornelius \<Rightarrow> real list list list list \<Rightarrow> failure + cornelius" where
  "find_surface_4d k co cu =
     (if \<not> initialized co \<or> cube_dimension co \<noteq> 4 then Inl Exit_failure
      else
        (let value_greater = length (filter (\<lambda>element. element \<ge> threshold co)
                                       (concat (concat (concat cu))))
         in if value_greater = 0 \<or> value_greater = 16 then Inr (co\<lparr>number_elements := 0\<rparr>)
            else case construct_polyhedra k (init_hypercube (cube_4d co) cu (co_dx co))
                        (threshold co) of
              Inl e \<Rightarrow> Inl e
            | Inr h \<Rightarrow>
                (let polys = take (number_polyhedra h) (polyhedra h) in
                 Inr (co\<lparr>cube_4d := h, number_elements := int (number_polyhedra h),
                         normals := store_rows (normals co) (map (polyhedron_normal k) polys),
                         centroids := store_rows (centroids co)
                                        (map polyhedron_centroid polys)\<rparr>))))"

definition get_centroid_element :: "cornelius \<Rightarrow> int \<Rightarrow> int \<Rightarrow> failure + real" where
  "get_centroid_element co index_surface_element element_centroid =
     (if index_surface_element \<ge> number_elements co \<or> element_centroid \<ge> cube_dimension co
      then Inl Out_of_range
      else case array_at (centroids co) index_surface_element of
        Inl e \<Rightarrow> Inl e
      | Inr row \<Rightarrow> array_at row (element_centroid + (int DIM - cube_dimension co)))"

definition get_normal_element :: "cornelius \<Rightarrow> int \<Rightarrow> int \<Rightarrow> failure + real" where
  "get_normal_element co index_surface_element element_normal =
     (if index_surface_element \<ge> number_elements co \<or> element_normal \<ge> cube_dimension co
      then Inl Out_of_range
      else case array_at (normals co) index_surface_element of
        Inl e \<Rightarrow> Inl e
      | Inr row \<Rightarrow> array_at row (element_normal + (int DIM - cube_dimension co)))"

subsection \<open>Concrete cells\<close>

text \<open>
  Values for the parameters, used only where the model is evaluated on a concrete cell:
  the two offsets as \<open>10\<^sup>-\<^sup>9\<close> and \<open>1 - 10\<^sup>-\<^sup>9\<close>, a line's centroid as its midpoint,
  and a flip that turns a normal whose product with \<open>v_out\<close> is positive.
\<close>

definition sample_externals :: externals where
  "sample_externals =
     \<lparr>ALMOST_ZERO = 1 / 10 ^ 9, ALMOST_ONE = 1 - 1 / 10 ^ 9,
      line_get_normal = (\<lambda>l. replicate 4 0),
      line_get_centroid = (\<lambda>l. map2 (\<lambda>a b. (a + b) / 2) (start_point l) (end_point l)),
      flip_normal_if_needed =
        (\<lambda>n v_out. if (\<Sum>(a, b)\<leftarrow>zip n v_out. a * b) > 0 then map uminus n else n)\<rparr>"

text \<open>A unit square in the plane of the last two coordinates, as \<^verbatim>\<open>find_surface_2d\<close> sets it up.\<close>

definition unit_square :: "real list list \<Rightarrow> square" where
  "unit_square sq = init_square sq [0, 1] [0, 0] [1, 1, 1, 1]"


text \<open>A facade state holding one element of a three-dimensional query.\<close>

definition one_element_3d :: cornelius where
  "one_element_3d =
     \<lparr>number_elements = 1, cube_dimension = 3, initialized = True, threshold = 1 / 2,
      co_dx = [1, 1, 1, 1], normals = [[0, 1, 2, 3]], centroids = [[0, 4, 5, 6]],
      cube_2d = unit_square [[0, 0], [0, 0]], cube_3d = new_cube, cube_4d = new_hypercube\<rparr>"

text \<open>An initialised facade of dimension \<open>d\<close>, threshold \<open>0.5\<close> and unit spacing.\<close>

definition ready :: "int \<Rightarrow> cornelius" where
  "ready d =
     \<lparr>number_elements = 0, cube_dimension = d, initialized = True, threshold = 1 / 2,
      co_dx = [1, 1, 1, 1], normals = [], centroids = [],
      cube_2d = unit_square [[0, 0], [0, 0]], cube_3d = new_cube, cube_4d = new_hypercube\<rparr>"

text \<open>
  The unit cube whose corner \<open>(0,0,0)\<close> and its three neighbours are \<open>0\<close> and whose
  other four corners are \<open>1\<close>, queried at threshold \<open>0.5\<close>.
\<close>

definition hexagon_cube :: "real list list list" where
  "hexagon_cube = [[[0, 0], [0, 1]], [[0, 1], [1, 1]]]"

definition hexagon_query :: "failure + cube" where
  "hexagon_query =
     construct_polygons sample_externals (init_cube new_cube hexagon_cube 0 0 [1, 1, 1, 1]) (1 / 2)"

text \<open>
  The unit hypercube whose corners \<open>(0,0,0,0)\<close> and \<open>(1,1,1,1)\<close> are \<open>0\<close> and whose
  other fourteen corners are \<open>1\<close>, queried at threshold \<open>0.5\<close>.
\<close>

definition two_corner_hypercube :: "real list list list list" where
  "two_corner_hypercube =
     [[[[0, 1], [1, 1]], [[1, 1], [1, 1]]], [[[1, 1], [1, 1]], [[1, 1], [1, 0]]]]"

definition two_corner_query :: "failure + hypercube" where
  "two_corner_query =
     construct_polyhedra sample_externals
       (init_hypercube new_hypercube two_corner_hypercube [1, 1, 1, 1]) (1 / 2)"

text \<open>
  The same hypercube with the corner values and the threshold multiplied by \<open>5\<close>.
\<close>

definition scaled_two_corner_query :: "failure + hypercube" where
  "scaled_two_corner_query =
     construct_polyhedra sample_externals
       (init_hypercube new_hypercube
          [[[[0, 5], [5, 5]], [[5, 5], [5, 5]]], [[[5, 5], [5, 5]], [[5, 5], [5, 0]]]]
          [1, 1, 1, 1]) (5 / 2)"

text \<open>A two-dimensional query that finds one line.\<close>

definition one_line_query :: "failure + cornelius" where
  "one_line_query = find_surface_2d sample_externals (ready 2) [[0, 1], [1, 1]]"

text \<open>A cube with one corner value just below the threshold \<open>0.5\<close>.\<close>

definition near_threshold_cube :: "real list list list" where
  "near_threshold_cube =
     [[[4 / 10, 0], [3 / 10, 11 / 10]], [[14 / 10, 1], [2 / 10, 1 / 2 - 1 / 10 ^ 11]]]"





section \<open>Theorems\<close>

subsection \<open>Helper lemmas\<close>

lemma upt_DIM: "[0..<DIM] = [0, 1, 2, 3]"
  by (simp add: DIM_def upt_rec)

lemma array_at_in_range: "0 \<le> i \<Longrightarrow> i < int (length xs) \<Longrightarrow> array_at xs i = Inr (xs ! nat i)"
  by (simp add: array_at_def)

lemma array_at_negative: "i < 0 \<Longrightarrow> array_at xs i = Inl Undefined_behaviour"
  by (simp add: array_at_def)






subsection \<open>Square: the cut points of the four edges\<close>




subsection \<open>Square: the four-cut case\<close>




subsection \<open>The facade: result accessors\<close>

text \<open>
  C8, as the claim states it, fails for a negative index: with one element stored and
  dimension 3, the index \<open>-1\<close> passes both upper-bound tests, so no exception is
  thrown, and the read lies outside the array: no stored component is returned.
\<close>

theorem get_element_negative_index_counterexample:
  "\<not> (- 1 \<ge> number_elements one_element_3d \<or> 0 \<ge> cube_dimension one_element_3d)
   \<and> get_centroid_element one_element_3d (- 1) 0 = Inl Undefined_behaviour
   \<and> get_normal_element one_element_3d (- 1) 0 = Inl Undefined_behaviour"
  by (simp add: get_centroid_element_def get_normal_element_def one_element_3d_def array_at_def)

text \<open>
  C8, amended. When the buffers hold at least \<open>number_elements\<close> rows of \<open>DIM\<close>
  components and the dimension is at most \<open>DIM\<close>: both accessors throw
  \<^verbatim>\<open>std::out_of_range\<close> whenever \<open>i \<ge> number_elements\<close> or \<open>c \<ge> cube_dimension\<close>, and
  for \<open>0 \<le> i < number_elements\<close> and \<open>0 \<le> c < cube_dimension\<close> they return component
  \<open>c + (DIM - cube_dimension)\<close> of row \<open>i\<close>. Negative indices are left out.
\<close>

theorem get_element_checked:
  assumes "number_elements co \<le> int (length (centroids co))"
    and "number_elements co \<le> int (length (normals co))"
    and "\<forall>row\<in>set (centroids co). length row = DIM"
    and "\<forall>row\<in>set (normals co). length row = DIM"
    and "cube_dimension co \<le> int DIM"
  shows "(i \<ge> number_elements co \<or> c \<ge> cube_dimension co \<longrightarrow>
            get_centroid_element co i c = Inl Out_of_range
          \<and> get_normal_element co i c = Inl Out_of_range)
       \<and> (0 \<le> i \<and> i < number_elements co \<and> 0 \<le> c \<and> c < cube_dimension co \<longrightarrow>
            get_centroid_element co i c
              = Inr (centroids co ! nat i ! nat (c + (int DIM - cube_dimension co)))
          \<and> get_normal_element co i c
              = Inr (normals co ! nat i ! nat (c + (int DIM - cube_dimension co))))"
proof (intro conjI impI)
  assume "i \<ge> number_elements co \<or> c \<ge> cube_dimension co"
  then show "get_centroid_element co i c = Inl Out_of_range"
    and "get_normal_element co i c = Inl Out_of_range"
    by (auto simp: get_centroid_element_def get_normal_element_def)
next
  assume r: "0 \<le> i \<and> i < number_elements co \<and> 0 \<le> c \<and> c < cube_dimension co"
  then have i1: "nat i < length (centroids co)" and i2: "nat i < length (normals co)"
    using assms(1,2) by auto
  then have l1: "length (centroids co ! nat i) = DIM" and l2: "length (normals co ! nat i) = DIM"
    using assms(3,4) by auto
  have j: "0 \<le> c + (int DIM - cube_dimension co)" "c + (int DIM - cube_dimension co) < int DIM"
    using r assms(5) by auto
  show "get_centroid_element co i c
          = Inr (centroids co ! nat i ! nat (c + (int DIM - cube_dimension co)))"
    using r i1 l1 j by (simp add: get_centroid_element_def array_at_def)
  show "get_normal_element co i c
          = Inr (normals co ! nat i ! nat (c + (int DIM - cube_dimension co)))"
    using r i2 l2 j by (simp add: get_normal_element_def array_at_def)
qed

theorem get_element_checked_witness:
  "get_centroid_element one_element_3d 1 0 = Inl Out_of_range
   \<and> get_normal_element one_element_3d 0 3 = Inl Out_of_range
   \<and> get_centroid_element one_element_3d 0 0 = Inr 4
   \<and> get_normal_element one_element_3d 0 2 = Inr 3"
  using get_element_checked [of one_element_3d 1 0] get_element_checked [of one_element_3d 0 3]
    get_element_checked [of one_element_3d 0 0] get_element_checked [of one_element_3d 0 2]
  by (simp add: one_element_3d_def DIM_def)

text \<open>
  C10. An index that is negative and below the upper bounds is not rejected: neither
  accessor throws \<^verbatim>\<open>std::out_of_range\<close>; only \<open>i \<ge> number_elements\<close> and
  \<open>c \<ge> cube_dimension\<close> are tested. A negative element index then reaches the array
  read, which lies outside the buffer.
\<close>

theorem get_element_negative_unrejected:
  assumes "i < number_elements co" and "c < cube_dimension co" and "i < 0 \<or> c < 0"
  shows "get_centroid_element co i c \<noteq> Inl Out_of_range
       \<and> get_normal_element co i c \<noteq> Inl Out_of_range
       \<and> (i < 0 \<longrightarrow> get_centroid_element co i c = Inl Undefined_behaviour
                  \<and> get_normal_element co i c = Inl Undefined_behaviour)"
  using assms
  by (auto simp: get_centroid_element_def get_normal_element_def array_at_def split: sum.splits)

theorem get_element_negative_unrejected_witness:
  "case one_line_query of
     Inl e \<Rightarrow> False
   | Inr co \<Rightarrow> number_elements co = 1
               \<and> get_centroid_element co (- 1) 0 = Inl Undefined_behaviour
               \<and> get_normal_element co (- 1) 0 = Inl Undefined_behaviour
               \<and> get_centroid_element co 0 (- 1) \<noteq> Inl Out_of_range
               \<and> get_normal_element co 0 (- 1) \<noteq> Inl Out_of_range"
proof -
  have ev: "case one_line_query of
              Inl e \<Rightarrow> False
            | Inr co \<Rightarrow> number_elements co = 1 \<and> cube_dimension co = 2"
    by code_simp
  show ?thesis
  proof (cases one_line_query)
    case (Inl e)
    from ev show ?thesis unfolding Inl by simp
  next
    case (Inr co)
    from ev have n: "number_elements co = 1" "cube_dimension co = 2"
      unfolding Inr by simp_all
    show ?thesis
      unfolding Inr
      using get_element_negative_unrejected [of "- 1" co 0]
        get_element_negative_unrejected [of 0 co "- 1"] n
      by simp
  qed
qed

subsection \<open>Cube: the ambiguity flag\<close>

lemma edge_keeps_fields:
  "sq_ambiguous (if A then add_cut s x1 y1 else if B then add_cut s x2 y2
                 else if C then add_cut s x3 y3 else s) = sq_ambiguous s"
  "sq_lines (if A then add_cut s x1 y1 else if B then add_cut s x2 y2
             else if C then add_cut s x3 y3 else s) = sq_lines s"
  by (simp_all add: add_cut_def)

lemma ends_of_edge_keeps:
  "\<exists>s'. sq_ambiguous s' = sq_ambiguous s \<and> sq_lines s' = sq_lines s
        \<and> ends_of_edge k s v =
          (if number_cuts s' \<noteq> 0 \<and> number_cuts s' \<noteq> 2 \<and> number_cuts s' \<noteq> 4
           then Inl Exit_failure else Inr s')"
  unfolding ends_of_edge_def Let_def
  by (rule exI, rule conjI [OF _ conjI [OF _ refl]]) (simp_all only: edge_keeps_fields)

lemma find_outside_keeps:
  "sq_lines (find_outside s v) = sq_lines s"
  "number_cuts (find_outside s v) = number_cuts s"
  "sq_ambiguous (find_outside s v) = (number_cuts s = 4 \<or> sq_ambiguous s)"
  by (simp_all add: find_outside_def Let_def)

text \<open>
  After \<^verbatim>\<open>construct_lines\<close> on a freshly initialised square, the square is flagged
  ambiguous exactly when it holds two lines.
\<close>

lemma construct_lines_flag:
  assumes "construct_lines k s v = Inr s'" and "\<not> sq_ambiguous s" and "length (sq_lines s) = 2"
  shows "(sq_ambiguous s' \<longleftrightarrow> sq_number_lines s' = 2) \<and> length (sq_lines s') = 2"
proof (cases "corner_mask s v = 0 \<or> corner_mask s v = 15")
  case True
  then show ?thesis using assms by (auto simp: construct_lines_def)
next
  case False
  obtain s1 where a: "sq_ambiguous s1 = sq_ambiguous s" and l: "sq_lines s1 = sq_lines s"
    and e: "ends_of_edge k s v =
          (if number_cuts s1 \<noteq> 0 \<and> number_cuts s1 \<noteq> 2 \<and> number_cuts s1 \<noteq> 4
           then Inl Exit_failure else Inr s1)"
    using ends_of_edge_keeps [of s k v] by blast
  show ?thesis
    using assms False a l unfolding construct_lines_def e
    by (auto simp: Let_def find_outside_keeps split: if_splits)
qed

lemma construct_all_lines_flags:
  assumes "construct_all_lines k ss v = Inr ss'"
    and "\<forall>s\<in>set ss. \<not> sq_ambiguous s \<and> length (sq_lines s) = 2"
  shows "\<forall>s'\<in>set ss'. (sq_ambiguous s' \<longleftrightarrow> sq_number_lines s' = 2) \<and> length (sq_lines s') = 2"
  using assms
proof (induction ss arbitrary: ss')
  case Nil
  then show ?case by simp
next
  case (Cons s ss)
  from Cons.prems(1) obtain s1 ss1 where
    h: "construct_lines k s v = Inr s1" and t: "construct_all_lines k ss v = Inr ss1"
    and r: "ss' = s1 # ss1"
    by (auto split: sum.splits)
  have "(sq_ambiguous s1 \<longleftrightarrow> sq_number_lines s1 = 2) \<and> length (sq_lines s1) = 2"
    using construct_lines_flag [OF h] Cons.prems(2) by simp
  moreover have "\<forall>s'\<in>set ss1. (sq_ambiguous s' \<longleftrightarrow> sq_number_lines s' = 2)
                                \<and> length (sq_lines s') = 2"
    using Cons.IH [OF t] Cons.prems(2) by simp
  ultimately show ?case using r by simp
qed

lemma init_square_fresh:
  "\<not> sq_ambiguous (init_square sq c_i c_v new_dx)"
  "length (sq_lines (init_square sq c_i c_v new_dx)) = 2"
  "points (init_square sq c_i c_v new_dx) = sq"
  by (simp_all add: init_square_def Let_def)

lemma split_to_squares_fresh:
  "\<forall>s\<in>set (squares (split_to_squares c)). \<not> sq_ambiguous s \<and> length (sq_lines s) = 2"
  by (auto simp: split_to_squares_def init_square_fresh)

lemma split_to_squares_keeps: "cb_ambiguous (split_to_squares c) = cb_ambiguous c"
  by (simp add: split_to_squares_def)

text \<open>The polygon loops change neither the squares, nor the line count, nor the flag.\<close>

lemma grow_polygons_keeps:
  "grow_polygons c used = Inr c' \<Longrightarrow>
     squares c' = squares c \<and> cb_number_lines c' = cb_number_lines c
     \<and> cb_ambiguous c' = cb_ambiguous c"
proof (induction c used rule: grow_polygons.induct)
  case (1 c used)
  show ?case
    using "1.prems" "1.IH"
    by (subst (asm) grow_polygons.simps)
       (auto simp: Let_def split: if_splits sum.splits prod.splits)
qed

lemma single_polygon_keeps:
  "squares (single_polygon c) = squares c"
  "cb_number_lines (single_polygon c) = cb_number_lines c"
  "cb_ambiguous (single_polygon c) = cb_ambiguous c"
  by (simp_all add: single_polygon_def Let_def)

lemma init_cube_not_ambiguous: "\<not> cb_ambiguous (init_cube c0 cu ci cv new_dx)"
  by (simp add: init_cube_def Let_def)

lemma empty_refs_no_lines:
  assumes "concat (map (\<lambda>s. take (sq_number_lines s) (sq_lines s)) sqs) = []"
    and "\<forall>s\<in>set sqs. length (sq_lines s) = 2"
  shows "\<forall>s\<in>set sqs. sq_number_lines s = 0"
proof
  fix s assume s: "s \<in> set sqs"
  then have "take (sq_number_lines s) (sq_lines s) = []" using assms(1) by auto
  moreover have "sq_lines s \<noteq> []" using assms(2) s by auto
  ultimately show "sq_number_lines s = 0" by simp
qed

text \<open>
  C2, as the claim states it, fails: the cube whose corner \<open>(0,0,0)\<close> and its three
  neighbours lie below the threshold has one line on each of its six faces, no
  ambiguous square and four corner values below the threshold, and it is flagged
  ambiguous.
\<close>

theorem cube_six_lines_four_below_counterexample:
  "(case hexagon_query of
      Inl e \<Rightarrow> False
    | Inr c \<Rightarrow> cb_ambiguous c \<and> \<not> list_ex sq_ambiguous (squares c) \<and> cb_number_lines c = 6)
   \<and> length (filter (\<lambda>x. x < 1 / 2) (concat (concat hexagon_cube))) = 4"
  by code_simp

text \<open>
  C2, amended. After a cube query (\<^verbatim>\<open>init_cube\<close>, then \<^verbatim>\<open>construct_polygons\<close>) that
  returns, the cube is flagged ambiguous if and only if one of its six squares is
  flagged ambiguous or exactly \<open>6\<close> lines were found; the number of corner values
  below the threshold is not looked at.
\<close>

theorem cube_ambiguous_iff:
  assumes "construct_polygons k (init_cube c0 cu ci cv new_dx) v = Inr c"
  shows "cb_ambiguous c \<longleftrightarrow> (list_ex sq_ambiguous (squares c) \<or> cb_number_lines c = 6)"
proof -
  define c1 where "c1 = split_to_squares (init_cube c0 cu ci cv new_dx)"
  have na: "\<not> cb_ambiguous c1"
    by (simp add: c1_def split_to_squares_keeps init_cube_not_ambiguous)
  from assms obtain sqs where sqs: "construct_all_lines k (squares c1) v = Inr sqs"
    by (auto simp: construct_polygons_def Let_def c1_def split: sum.splits)
  define refs where "refs = concat (map (\<lambda>s. take (sq_number_lines s) (sq_lines s)) sqs)"
  define c2 where "c2 = c1\<lparr>squares := sqs, line_refs := refs, cb_number_lines := length refs\<rparr>"
  define c3 where "c3 = cube_check_ambiguity c2 (cb_number_lines c2)"
  have "construct_polygons k (init_cube c0 cu ci cv new_dx) v =
           (if cb_number_lines c2 = 0 then Inr c2
            else if cb_ambiguous c3
                 then grow_polygons (c3\<lparr>cb_not_used := replicate (NSQUARES * 2) True\<rparr>) 0
                 else Inr (single_polygon c3))"
    apply (simp only: construct_polygons_def Let_def)
    apply (simp only: c1_def [symmetric])
    apply (simp only: sqs sum.case)
    apply (simp only: refs_def [symmetric])
    apply (simp only: c2_def [symmetric])
    apply (simp only: c3_def [symmetric])
    done
  with assms have res: "(if cb_number_lines c2 = 0 then Inr c2
            else if cb_ambiguous c3
                 then grow_polygons (c3\<lparr>cb_not_used := replicate (NSQUARES * 2) True\<rparr>) 0
                 else Inr (single_polygon c3)) = Inr c"
    by (simp only:)
  have fl: "\<forall>s\<in>set sqs. (sq_ambiguous s \<longleftrightarrow> sq_number_lines s = 2) \<and> length (sq_lines s) = 2"
    using construct_all_lines_flags [OF sqs] split_to_squares_fresh by (simp add: c1_def)
  have c2f: "squares c2 = sqs" "cb_number_lines c2 = length refs" "\<not> cb_ambiguous c2"
    using na by (simp_all add: c2_def)
  have c3f: "squares c3 = sqs" "cb_number_lines c3 = length refs"
    "cb_ambiguous c3 \<longleftrightarrow> (list_ex sq_ambiguous sqs \<or> length refs = 6)"
    using c2f by (auto simp: c3_def cube_check_ambiguity_def)
  have key: "cb_ambiguous c = cb_ambiguous c3 \<and> squares c = sqs
             \<and> cb_number_lines c = length refs"
  proof (cases "cb_number_lines c2 = 0")
    case True
    then have "c = c2" using res by (simp only: simp_thms if_True sum.inject)
    then have cc: "cb_ambiguous c = cb_ambiguous c2" "squares c = squares c2"
      "cb_number_lines c = cb_number_lines c2"
      by (simp_all only:)
    have r0: "refs = []" using True c2f(2) by simp
    then have "concat (map (\<lambda>s. take (sq_number_lines s) (sq_lines s)) sqs) = []"
      by (simp only: refs_def)
    moreover have "\<forall>s\<in>set sqs. length (sq_lines s) = 2" using fl by blast
    ultimately have "\<forall>s\<in>set sqs. sq_number_lines s = 0"
      by (rule empty_refs_no_lines)
    then have "\<not> list_ex sq_ambiguous sqs"
      using fl by (auto simp: list_ex_iff)
    then have "\<not> cb_ambiguous c3" using c3f(3) r0 by simp
    then show ?thesis using cc c2f by (simp only: simp_thms)
  next
    case False
    show ?thesis
    proof (cases "cb_ambiguous c3")
      case True
      with res False
      have "grow_polygons (c3\<lparr>cb_not_used := replicate (NSQUARES * 2) True\<rparr>) 0 = Inr c"
        by (simp only: simp_thms if_True if_False)
      from grow_polygons_keeps [OF this]
      have "squares c = squares c3" "cb_number_lines c = cb_number_lines c3"
        "cb_ambiguous c = cb_ambiguous c3"
        by simp_all
      then show ?thesis using c3f(1,2) by (simp only: simp_thms)
    next
      case nb: False
      with res False have "c = single_polygon c3" by (simp only: simp_thms if_False sum.inject)
      then have "squares c = squares c3" "cb_number_lines c = cb_number_lines c3"
        "cb_ambiguous c = cb_ambiguous c3"
        by (simp_all only: single_polygon_keeps)
      then show ?thesis using c3f(1,2) by (simp only: simp_thms)
    qed
  qed
  then show ?thesis using c3f(3) by auto
qed

theorem cube_ambiguous_iff_witness:
  "case hexagon_query of
     Inl e \<Rightarrow> False
   | Inr c \<Rightarrow> cb_number_lines c = 6
              \<and> (cb_ambiguous c \<longleftrightarrow> (list_ex sq_ambiguous (squares c) \<or> cb_number_lines c = 6))"
proof -
  have ev: "case hexagon_query of Inl e \<Rightarrow> False | Inr c \<Rightarrow> cb_number_lines c = 6"
    by code_simp
  show ?thesis
  proof (cases hexagon_query)
    case (Inl e)
    from ev show ?thesis unfolding Inl by simp
  next
    case (Inr c)
    from ev have n: "cb_number_lines c = 6" unfolding Inr by simp
    from Inr have "construct_polygons sample_externals
                     (init_cube new_cube hexagon_cube 0 0 [1, 1, 1, 1]) (1 / 2) = Inr c"
      by (simp only: hexagon_query_def)
    from cube_ambiguous_iff [OF this] show ?thesis unfolding Inr using n by simp
  qed
qed

subsection \<open>Hypercube: the ambiguity flag\<close>

text \<open>
  C1. The hypercube with the two opposite corners \<open>(0,0,0,0)\<close> and \<open>(1,1,1,1)\<close>
  below the threshold \<open>0.5\<close>: \<^verbatim>\<open>split_to_cubes\<close> counts \<open>2\<close> corner values below the
  threshold, no cube is ambiguous and the eight cubes hold \<open>24\<close> lines, so the test the
  claim describes is met. \<^verbatim>\<open>construct_polyhedra\<close> hands the threshold, converted to
  the integer \<open>0\<close>, to \<^verbatim>\<open>check_ambiguity\<close> in place of that count, the hypercube is
  not flagged ambiguous and all eight polygons end up in one polyhedron.
\<close>

theorem hypercube_two_corners_not_flagged:
  "(case two_corner_query of
      Inl e \<Rightarrow> False
    | Inr h \<Rightarrow> \<not> hc_ambiguous h \<and> \<not> list_ex cb_ambiguous (cubes h)
               \<and> (\<Sum>c\<leftarrow>cubes h. cb_number_lines c) = 24
               \<and> number_polyhedra h = 1
               \<and> map ph_number_polygons (polyhedra h) = [8])
   \<and> fst (split_to_cubes (init_hypercube new_hypercube two_corner_hypercube [1, 1, 1, 1])
            (1 / 2)) = 2
   \<and> double_to_int (1 / 2) = Inr 0"
  by code_simp

text \<open>
  With every corner value and the threshold multiplied by \<open>5\<close> the cell is cut in the
  same way, but the threshold \<open>2.5\<close> converts to \<open>2\<close>: now the hypercube is flagged
  and the polygons are chained into two polyhedra of four polygons each.
\<close>

lemma hypercube_flag_follows_threshold:
  "double_to_int (5 / 2) = Inr 2
   \<and> (case scaled_two_corner_query of
        Inl e \<Rightarrow> False
      | Inr h \<Rightarrow> hc_ambiguous h \<and> \<not> list_ex cb_ambiguous (cubes h)
                 \<and> (\<Sum>c\<leftarrow>cubes h. cb_number_lines c) = 24
                 \<and> number_polyhedra h = 2
                 \<and> map ph_number_polygons (take 2 (polyhedra h)) = [4, 4])"
  by code_simp

subsection \<open>Polyhedron: connected lines\<close>

lemma four_coordinates:
  fixes a0 a1 a2 a3 b0 b1 b2 b3 E :: real
  assumes "0 \<le> a0" "0 \<le> a1" "0 \<le> a2" "0 \<le> a3"
    and "0 \<le> b0" "0 \<le> b1" "0 \<le> b2" "0 \<le> b3" and "0 < E"
  shows "(let d1 = (if 0 \<le> E then 0 + a0 else 0); d2 = (if 0 \<le> E then 0 + b0 else 0)
          in if d1 > E \<and> d2 > E then False else
           (let e1 = (if d1 \<le> E then d1 + a1 else d1); e2 = (if d2 \<le> E then d2 + b1 else d2)
            in if e1 > E \<and> e2 > E then False else
             (let f1 = (if e1 \<le> E then e1 + a2 else e1); f2 = (if e2 \<le> E then e2 + b2 else e2)
              in if f1 > E \<and> f2 > E then False else
               (let g1 = (if f1 \<le> E then f1 + a3 else f1);
                    g2 = (if f2 \<le> E then f2 + b3 else f2)
                in if g1 > E \<and> g2 > E then False else True))))
         \<longleftrightarrow> (a0 + a1 + a2 + a3 \<le> E \<or> b0 + b1 + b2 + b3 \<le> E)"
  using assms unfolding Let_def by (auto split: if_splits)

text \<open>
  What \<^verbatim>\<open>lines_are_connected\<close> decides: the start point of the second line lies within
  \<open>EPSILON\<close> of the start point or of the end point of the first line, the distance being
  the sum of the absolute coordinate differences.
\<close>

lemma lines_are_connected_iff:
  "lines_are_connected line1 line2 \<longleftrightarrow>
     abs_difference (start_point line1) (start_point line2) \<le> EPSILON
     \<or> abs_difference (end_point line1) (start_point line2) \<le> EPSILON"
proof -
  have E: "0 < EPSILON" by (simp add: EPSILON_def)
  show ?thesis
    unfolding lines_are_connected_def abs_difference_def upt_DIM lines_connected_loop.simps
    using four_coordinates [OF _ _ _ _ _ _ _ _ E,
        of "\<bar>start_point line1 ! 0 - start_point line2 ! 0\<bar>"
           "\<bar>start_point line1 ! 1 - start_point line2 ! 1\<bar>"
           "\<bar>start_point line1 ! 2 - start_point line2 ! 2\<bar>"
           "\<bar>start_point line1 ! 3 - start_point line2 ! 3\<bar>"
           "\<bar>end_point line1 ! 0 - start_point line2 ! 0\<bar>"
           "\<bar>end_point line1 ! 1 - start_point line2 ! 1\<bar>"
           "\<bar>end_point line1 ! 2 - start_point line2 ! 2\<bar>"
           "\<bar>end_point line1 ! 3 - start_point line2 ! 3\<bar>"]
    by (simp add: Let_def add.assoc)
qed

text \<open>
  C4. In the query of the two-corner hypercube, the second line of the polygon of the
  cube \<open>x\<^sub>0 = 0\<close> and the second line of the polygon of the cube \<open>x\<^sub>1 = 0\<close> end in the
  same point \<open>(0, 0, 0, 0.5)\<close>. They are not reported as connected: the test compares
  the start point of the second line with the two end points of the first and never
  reads the end point of the second. With the second line reversed they are connected.
\<close>

theorem lines_are_connected_ignores_second_end:
  "case two_corner_query of
     Inl e \<Rightarrow> False
   | Inr h \<Rightarrow>
       (let line1 = pg_lines (polygon_refs h ! 0) ! 1;
            line2 = pg_lines (polygon_refs h ! 2) ! 1
        in start_point line1 = [0, 1 / 2, 0, 0] \<and> end_point line1 = [0, 0, 0, 1 / 2]
           \<and> start_point line2 = [1 / 2, 0, 0, 0] \<and> end_point line2 = [0, 0, 0, 1 / 2]
           \<and> \<not> lines_are_connected line1 line2
           \<and> lines_are_connected line1 (flip_start_end line2))"
  by code_simp

subsection \<open>Fewer than three lines or polygons left\<close>




text \<open>
  A cell on which a query ends this way: seven ordinary corner values and the corner
  \<open>(1,1,1)\<close> at \<open>10\<^sup>-\<^sup>1\<^sup>1\<close> below the threshold \<open>0.5\<close>.
\<close>

lemma near_threshold_cube_polygons:
  "construct_polygons sample_externals (init_cube new_cube near_threshold_cube 0 0 [1, 1, 1, 1])
     (1 / 2) = Inl Exit_failure"
  by code_simp

lemma near_threshold_cube_query:
  "find_surface_3d sample_externals (ready 3) near_threshold_cube = Inl Exit_failure"
proof -
  have v: "length (filter (\<lambda>element. element \<ge> threshold (ready 3))
                    (concat (concat near_threshold_cube))) = 3"
    by (simp add: ready_def near_threshold_cube_def)
  have c: "construct_polygons sample_externals
             (init_cube (cube_3d (ready 3)) near_threshold_cube 0 0 (co_dx (ready 3)))
             (threshold (ready 3)) = Inl Exit_failure"
    using near_threshold_cube_polygons by (simp add: ready_def)
  have i: "initialized (ready 3)" "cube_dimension (ready 3) = 3"
    by (simp_all add: ready_def)
  show ?thesis
    unfolding find_surface_3d_def Let_def v c using i by simp
qed

subsection \<open>Cells that the surface does not cross\<close>

lemma two_elements: "length xs = STEPS \<Longrightarrow> \<exists>a b. xs = [a, b]"
  by (cases xs; cases "tl xs") (auto simp: STEPS_def)

lemma cell_2d_corners:
  assumes "cell_2d cu"
  shows "length (concat cu) = 4"
    and "cu ! 0 ! 0 \<in> set (concat cu)" and "cu ! 0 ! 1 \<in> set (concat cu)"
    and "cu ! 1 ! 0 \<in> set (concat cu)" and "cu ! 1 ! 1 \<in> set (concat cu)"
proof -
  obtain r0 r1 where cu: "cu = [r0, r1]"
    using assms two_elements unfolding cell_2d_def by blast
  then obtain a b c d where "r0 = [a, b]" "r1 = [c, d]"
    using assms two_elements [of r0] two_elements [of r1] unfolding cell_2d_def by auto
  with cu show "length (concat cu) = 4"
    and "cu ! 0 ! 0 \<in> set (concat cu)" and "cu ! 0 ! 1 \<in> set (concat cu)"
    and "cu ! 1 ! 0 \<in> set (concat cu)" and "cu ! 1 ! 1 \<in> set (concat cu)"
    by simp_all
qed

lemma cell_3d_corners: "cell_3d cu \<Longrightarrow> length (concat (concat cu)) = 8"
proof -
  assume a: "cell_3d cu"
  then obtain p0 p1 where cu: "cu = [p0, p1]"
    using two_elements unfolding cell_3d_def by blast
  then have "cell_2d p0" "cell_2d p1" using a unfolding cell_3d_def by auto
  then show ?thesis using cu cell_2d_corners(1) by simp
qed

lemma cell_4d_corners: "cell_4d cu \<Longrightarrow> length (concat (concat (concat cu))) = 16"
proof -
  assume a: "cell_4d cu"
  then obtain p0 p1 where cu: "cu = [p0, p1]"
    using two_elements unfolding cell_4d_def by blast
  then have "cell_3d p0" "cell_3d p1" using a unfolding cell_4d_def by auto
  then show ?thesis using cu cell_3d_corners by simp
qed

lemma filter_all: "\<forall>x\<in>set xs. P x \<Longrightarrow> length (filter P xs) = length xs"
  by (induction xs) auto

lemma filter_none: "\<forall>x\<in>set xs. \<not> P x \<Longrightarrow> length (filter P xs) = 0"
  by (induction xs) auto

lemma one_sided_2d:
  assumes "initialized co" and "cube_dimension co = 2" and "cell_2d cu"
    and "(\<forall>x\<in>set (concat cu). x > threshold co) \<or> (\<forall>x\<in>set (concat cu). x < threshold co)"
  shows "\<exists>co'. find_surface_2d k co cu = Inr co' \<and> number_elements co' = 0"
proof -
  define s where "s = init_square cu [0, 1] [0, 0] (co_dx co)"
  have "corner_mask s (threshold co) = 0 \<or> corner_mask s (threshold co) = 15"
  proof (rule disjE [OF assms(4)])
    assume a: "\<forall>x\<in>set (concat cu). x > threshold co"
    have "cu ! 0 ! 0 > threshold co" "cu ! 0 ! 1 > threshold co"
      "cu ! 1 ! 0 > threshold co" "cu ! 1 ! 1 > threshold co"
      using a cell_2d_corners(2-5) [OF assms(3)] by blast+
    then show ?thesis by (simp add: corner_mask_def s_def init_square_fresh)
  next
    assume a: "\<forall>x\<in>set (concat cu). x < threshold co"
    have "cu ! 0 ! 0 < threshold co" "cu ! 0 ! 1 < threshold co"
      "cu ! 1 ! 0 < threshold co" "cu ! 1 ! 1 < threshold co"
      using a cell_2d_corners(2-5) [OF assms(3)] by blast+
    then show ?thesis by (simp add: corner_mask_def s_def init_square_fresh)
  qed
  then have "construct_lines k s (threshold co) = Inr (s\<lparr>sq_number_lines := 0\<rparr>)"
    by (simp add: construct_lines_def)
  then have "find_surface_2d k co cu =
               Inr (co\<lparr>cube_2d := s\<lparr>sq_number_lines := 0\<rparr>,
                       number_elements := int (sq_number_lines (s\<lparr>sq_number_lines := 0\<rparr>)),
                       normals := store_rows (normals co) (map (line_get_normal k)
                         (take (sq_number_lines (s\<lparr>sq_number_lines := 0\<rparr>))
                               (sq_lines (s\<lparr>sq_number_lines := 0\<rparr>)))),
                       centroids := store_rows (centroids co) (map (line_get_centroid k)
                         (take (sq_number_lines (s\<lparr>sq_number_lines := 0\<rparr>))
                               (sq_lines (s\<lparr>sq_number_lines := 0\<rparr>))))\<rparr>)"
    using assms(1,2)
    by (simp only: find_surface_2d_def s_def [symmetric] Let_def simp_thms if_False sum.case)
  then show ?thesis by simp
qed

lemma one_sided_3d:
  assumes "initialized co" and "cube_dimension co = 3" and "cell_3d cu"
    and "(\<forall>x\<in>set (concat (concat cu)). x > threshold co)
         \<or> (\<forall>x\<in>set (concat (concat cu)). x < threshold co)"
  shows "\<exists>co'. find_surface_3d k co cu = Inr co' \<and> number_elements co' = 0"
proof -
  have n: "length (filter (\<lambda>element. element \<ge> threshold co) (concat (concat cu))) = 0
         \<or> length (filter (\<lambda>element. element \<ge> threshold co) (concat (concat cu))) = 8"
  proof (rule disjE [OF assms(4)])
    assume "\<forall>x\<in>set (concat (concat cu)). x > threshold co"
    then have "\<forall>x\<in>set (concat (concat cu)). x \<ge> threshold co" using less_imp_le by blast
    then show ?thesis
      using filter_all [of "concat (concat cu)" "\<lambda>e. e \<ge> threshold co"]
        cell_3d_corners [OF assms(3)] by simp
  next
    assume "\<forall>x\<in>set (concat (concat cu)). x < threshold co"
    then have "\<forall>x\<in>set (concat (concat cu)). \<not> x \<ge> threshold co" using not_le by blast
    then show ?thesis
      using filter_none [of "concat (concat cu)" "\<lambda>e. e \<ge> threshold co"] by simp
  qed
  have "find_surface_3d k co cu = Inr (co\<lparr>number_elements := 0\<rparr>)"
    unfolding find_surface_3d_def Let_def
    apply (subst if_not_P)
    using assms(1,2) apply simp
    apply (subst if_P)
    using n apply (simp only:)
    apply (rule refl)
    done
  then show ?thesis by simp
qed

lemma one_sided_4d:
  assumes "initialized co" and "cube_dimension co = 4" and "cell_4d cu"
    and "(\<forall>x\<in>set (concat (concat (concat cu))). x > threshold co)
         \<or> (\<forall>x\<in>set (concat (concat (concat cu))). x < threshold co)"
  shows "\<exists>co'. find_surface_4d k co cu = Inr co' \<and> number_elements co' = 0"
proof -
  have n: "length (filter (\<lambda>element. element \<ge> threshold co) (concat (concat (concat cu)))) = 0
         \<or> length (filter (\<lambda>element. element \<ge> threshold co) (concat (concat (concat cu)))) = 16"
  proof (rule disjE [OF assms(4)])
    assume "\<forall>x\<in>set (concat (concat (concat cu))). x > threshold co"
    then have "\<forall>x\<in>set (concat (concat (concat cu))). x \<ge> threshold co"
      using less_imp_le by blast
    then show ?thesis
      using filter_all [of "concat (concat (concat cu))" "\<lambda>e. e \<ge> threshold co"]
        cell_4d_corners [OF assms(3)] by simp
  next
    assume "\<forall>x\<in>set (concat (concat (concat cu))). x < threshold co"
    then have "\<forall>x\<in>set (concat (concat (concat cu))). \<not> x \<ge> threshold co"
      using not_le by blast
    then show ?thesis
      using filter_none [of "concat (concat (concat cu))" "\<lambda>e. e \<ge> threshold co"] by simp
  qed
  have "find_surface_4d k co cu = Inr (co\<lparr>number_elements := 0\<rparr>)"
    unfolding find_surface_4d_def Let_def
    apply (subst if_not_P)
    using assms(1,2) apply simp
    apply (subst if_P)
    using n apply (simp only:)
    apply (rule refl)
    done
  then show ?thesis by simp
qed

text \<open>
  C5. On a facade initialised for the dimension of the query, a cell whose corner
  values are all strictly above the threshold, or all strictly below it, makes
  \<^verbatim>\<open>find_surface_2d\<close>, \<^verbatim>\<open>find_surface_3d\<close> and \<^verbatim>\<open>find_surface_4d\<close> return with
  \<open>number_elements = 0\<close>.
\<close>

theorem one_sided_cell_no_elements:
  assumes "initialized co"
  shows "(cube_dimension co = 2 \<and> cell_2d cell
          \<and> ((\<forall>x\<in>set (concat cell). x > threshold co) \<or> (\<forall>x\<in>set (concat cell). x < threshold co))
          \<longrightarrow> (\<exists>co'. find_surface_2d k co cell = Inr co' \<and> number_elements co' = 0))
       \<and> (cube_dimension co = 3 \<and> cell_3d cube_cell
          \<and> ((\<forall>x\<in>set (concat (concat cube_cell)). x > threshold co)
             \<or> (\<forall>x\<in>set (concat (concat cube_cell)). x < threshold co))
          \<longrightarrow> (\<exists>co'. find_surface_3d k co cube_cell = Inr co' \<and> number_elements co' = 0))
       \<and> (cube_dimension co = 4 \<and> cell_4d hyper_cell
          \<and> ((\<forall>x\<in>set (concat (concat (concat hyper_cell))). x > threshold co)
             \<or> (\<forall>x\<in>set (concat (concat (concat hyper_cell))). x < threshold co))
          \<longrightarrow> (\<exists>co'. find_surface_4d k co hyper_cell = Inr co' \<and> number_elements co' = 0))"
  using assms one_sided_2d [of co cell k] one_sided_3d [of co cube_cell k]
    one_sided_4d [of co hyper_cell k]
  by blast

theorem one_sided_cell_no_elements_witness:
  "(\<exists>co'. find_surface_2d sample_externals (ready 2) [[1, 1], [1, 1]] = Inr co'
           \<and> number_elements co' = 0)
   \<and> (\<exists>co'. find_surface_3d sample_externals (ready 3) [[[0, 0], [0, 0]], [[0, 0], [0, 0]]] = Inr co'
           \<and> number_elements co' = 0)
   \<and> (\<exists>co'. find_surface_4d sample_externals (ready 4)
               [[[[1, 1], [1, 1]], [[1, 1], [1, 1]]], [[[1, 1], [1, 1]], [[1, 1], [1, 1]]]] = Inr co'
           \<and> number_elements co' = 0)"
proof -
  have i: "initialized (ready 2)" "initialized (ready 3)" "initialized (ready 4)"
    by (simp_all add: ready_def)
  have c: "cell_2d [[1, 1], [1, 1]]" "cell_3d [[[0, 0], [0, 0]], [[0, 0], [0, 0]]]"
    "cell_4d [[[[1, 1], [1, 1]], [[1, 1], [1, 1]]], [[[1, 1], [1, 1]], [[1, 1], [1, 1]]]]"
    by (simp_all add: cell_2d_def cell_3d_def cell_4d_def STEPS_def)
  show ?thesis
    using one_sided_cell_no_elements [OF i(1), where k = sample_externals
        and cell = "[[1, 1], [1, 1]]"]
      one_sided_cell_no_elements [OF i(2), where k = sample_externals
        and cube_cell = "[[[0, 0], [0, 0]], [[0, 0], [0, 0]]]"]
      one_sided_cell_no_elements [OF i(3), where k = sample_externals
        and hyper_cell =
          "[[[[1, 1], [1, 1]], [[1, 1], [1, 1]]], [[[1, 1], [1, 1]], [[1, 1], [1, 1]]]]"]
      c
    by (simp add: ready_def)
qed

end
